theory Spec2Isabelle
  imports Main "HOL-Library.Word"
begin

section \<open>The optical-flow GPU buffer wrapper (optical\_flow\_buffer.h)\<close>

subsection \<open>Vendor types\<close>

text \<open>
  The vendor headers (nvOpticalFlowCuda.h, nvOpticalFlowCommon.h) are not among the
  sources. The wrapper only stores, copies and compares values of the vendor types, so
  they are declared here with exactly the members the wrapper names: handles are opaque
  addresses, \<open>CUdeviceptr\<close> is an unsigned 64-bit integer that the wrapper compares
  with 0, the usage and format tags are C enumeration values that are copied through,
  and the stride fields are unsigned 32-bit byte counts.
\<close>

type_synonym size_t = "64 word"
type_synonym uint32_t = "32 word"
type_synonym NvOFHandle = nat
type_synonym NvOFGPUBufferHandle = nat
type_synonym CUdeviceptr = "64 word"
type_synonym NV_OF_BUFFER_USAGE = "32 word"
type_synonym NV_OF_BUFFER_FORMAT = "32 word"

datatype NV_OF_STATUS = NV_OF_SUCCESS | NV_OF_ERR nat

datatype NV_OF_CUDA_BUFFER_TYPE =
    NV_OF_CUDA_BUFFER_TYPE_UNDEFINED
  | NV_OF_CUDA_BUFFER_TYPE_CUARRAY
  | NV_OF_CUDA_BUFFER_TYPE_CUDEVICEPTR

record NV_OF_BUFFER_DESCRIPTOR =
  width :: uint32_t
  height :: uint32_t
  bufferUsage :: NV_OF_BUFFER_USAGE
  bufferFormat :: NV_OF_BUFFER_FORMAT

record NV_OF_BUFFER_STRIDE =
  strideXInBytes :: uint32_t
  strideYInBytes :: uint32_t

text \<open>
  \<open>strideInfo\<close> is a fixed-size C array indexed by plane; every index the wrapper
  uses (only 0) is inside it, so it is a total function of the plane number.
\<close>

record NV_OF_CUDA_BUFFER_STRIDE_INFO =
  strideInfo :: "nat \<Rightarrow> NV_OF_BUFFER_STRIDE"
  numPlanes :: uint32_t

subsection \<open>The vendor function table and the calls made through it\<close>

text \<open>
  The entries of the function table are C functions of the driver. They act on driver
  state of some type \<open>'v\<close>, which the wrapper never inspects. An output parameter
  (\<open>&handle_\<close>, \<open>&stride_info\<close>) is returned next to the status: it is the value found
  in the variable after the call. The descriptor is passed by address to the create call
  and is only read there.
\<close>

record 'v NV_OF_CUDA_API_FUNCTION_LIST =
  nvOFCreateGPUBufferCuda ::
    "NvOFHandle \<Rightarrow> NV_OF_BUFFER_DESCRIPTOR \<Rightarrow> NV_OF_CUDA_BUFFER_TYPE \<Rightarrow> 'v
      \<Rightarrow> (NV_OF_STATUS \<times> NvOFGPUBufferHandle) \<times> 'v"
  nvOFGPUBufferGetCUdeviceptr :: "NvOFGPUBufferHandle \<Rightarrow> 'v \<Rightarrow> CUdeviceptr \<times> 'v"
  nvOFGPUBufferGetStrideInfo ::
    "NvOFGPUBufferHandle \<Rightarrow> 'v \<Rightarrow> (NV_OF_STATUS \<times> NV_OF_CUDA_BUFFER_STRIDE_INFO) \<times> 'v"
  nvOFDestroyGPUBufferCuda :: "NvOFGPUBufferHandle \<Rightarrow> 'v \<Rightarrow> NV_OF_STATUS \<times> 'v"

text \<open>Every call through the table is recorded, in order, with its arguments.\<close>

datatype vendor_call =
    CreateGPUBufferCuda NvOFHandle NV_OF_BUFFER_DESCRIPTOR NV_OF_CUDA_BUFFER_TYPE
  | GPUBufferGetCUdeviceptr NvOFGPUBufferHandle
  | GPUBufferGetStrideInfo NvOFGPUBufferHandle
  | DestroyGPUBufferCuda NvOFGPUBufferHandle

record 'v world =
  vendor :: 'v
  calls :: "vendor_call list"

fun is_destroy :: "vendor_call \<Rightarrow> bool" where
  "is_destroy (DestroyGPUBufferCuda h) = True"
| "is_destroy c = False"

subsection \<open>Ways a C++ call ends\<close>

datatype error = CUDAError NV_OF_STATUS | DALIException string

datatype 'a outcome = Returned 'a | Threw error | Terminated

text \<open>
  Modelled from the spec: the macro \<open>CUDA_CALL\<close> (dali/core, not among the sources)
  applied to a vendor status; construction fails with an error if the call does not
  report success.
\<close>

definition CUDA_CALL :: "NV_OF_STATUS \<Rightarrow> unit outcome" where
  "CUDA_CALL code = (if code = NV_OF_SUCCESS then Returned () else Threw (CUDAError code))"

text \<open>
  Modelled from the spec: the macro \<open>DALI_ENFORCE\<close> (dali/core/error\_handling.h, not
  among the sources); it fails with an error carrying the message when the condition is
  false.
\<close>

definition DALI_ENFORCE :: "bool \<Rightarrow> string \<Rightarrow> unit outcome" where
  "DALI_ENFORCE cond msg = (if cond then Returned () else Threw (DALIException msg))"

subsection \<open>class OpticalFlowBuffer\<close>

text \<open>
  The fields of \<open>struct Stride\<close> are \<open>x\<close> and \<open>y\<close> in the source. The data
  members \<open>of_inst_\<close>, \<open>descriptor_\<close>, \<open>handle_\<close>, \<open>ptr_\<close> and \<open>stride_\<close> are
  written with the prefix \<open>m_\<close> here, since a name cannot end with an underscore.
\<close>

record Stride =
  Stride_x :: size_t
  Stride_y :: size_t

record 'v OpticalFlowBuffer =
  m_of_inst :: "'v NV_OF_CUDA_API_FUNCTION_LIST"
  m_descriptor :: NV_OF_BUFFER_DESCRIPTOR
  m_handle :: NvOFGPUBufferHandle
  m_ptr :: CUdeviceptr
  m_stride :: Stride

text \<open>\<open>static_cast<uint32_t>\<close> of a \<open>size_t\<close> keeps the low 32 bits.\<close>

definition GenerateBufferDescriptor ::
  "size_t \<Rightarrow> size_t \<Rightarrow> NV_OF_BUFFER_FORMAT \<Rightarrow> NV_OF_BUFFER_USAGE \<Rightarrow> NV_OF_BUFFER_DESCRIPTOR" where
  "GenerateBufferDescriptor w h format usage =
     \<lparr> width = ucast w, height = ucast h, bufferUsage = usage, bufferFormat = format \<rparr>"

text \<open>
  The constructor. The member initialisers copy the function table and build the
  descriptor; the body makes the three vendor calls. An exception leaves no object: the
  result is \<open>Threw\<close>, and the destructor does not run for an object whose constructor
  did not finish. The world is returned in every case, with the calls made so far.
\<close>

definition OpticalFlowBuffer_ctor ::
  "NvOFHandle \<Rightarrow> size_t \<Rightarrow> size_t \<Rightarrow> 'v NV_OF_CUDA_API_FUNCTION_LIST
    \<Rightarrow> NV_OF_BUFFER_USAGE \<Rightarrow> NV_OF_BUFFER_FORMAT \<Rightarrow> 'v world
    \<Rightarrow> 'v OpticalFlowBuffer outcome \<times> 'v world" where
  "OpticalFlowBuffer_ctor of_handle w h function_list usage format wd =
    (let of_inst = function_list;
         descriptor = GenerateBufferDescriptor w h format usage;
         ((st1, handle), v1) =
            nvOFCreateGPUBufferCuda of_inst of_handle descriptor
              NV_OF_CUDA_BUFFER_TYPE_CUDEVICEPTR (vendor wd);
         wd1 = \<lparr> vendor = v1,
                 calls = calls wd @
                   [CreateGPUBufferCuda of_handle descriptor NV_OF_CUDA_BUFFER_TYPE_CUDEVICEPTR] \<rparr>
     in case CUDA_CALL st1 of
          Threw e \<Rightarrow> (Threw e, wd1)
        | Terminated \<Rightarrow> (Terminated, wd1)
        | Returned _ \<Rightarrow>
           (let (ptr, v2) = nvOFGPUBufferGetCUdeviceptr of_inst handle (vendor wd1);
                wd2 = \<lparr> vendor = v2, calls = calls wd1 @ [GPUBufferGetCUdeviceptr handle] \<rparr>
            in case DALI_ENFORCE (ptr \<noteq> 0) ''Invalid pointer'' of
                 Threw e \<Rightarrow> (Threw e, wd2)
               | Terminated \<Rightarrow> (Terminated, wd2)
               | Returned _ \<Rightarrow>
                  (let ((st3, stride_info), v3) =
                         nvOFGPUBufferGetStrideInfo of_inst handle (vendor wd2);
                       wd3 = \<lparr> vendor = v3,
                               calls = calls wd2 @ [GPUBufferGetStrideInfo handle] \<rparr>
                   in case CUDA_CALL st3 of
                        Threw e \<Rightarrow> (Threw e, wd3)
                      | Terminated \<Rightarrow> (Terminated, wd3)
                      | Returned _ \<Rightarrow>
                         (Returned
                            \<lparr> m_of_inst = of_inst,
                              m_descriptor = descriptor,
                              m_handle = handle,
                              m_ptr = ptr,
                              m_stride =
                                \<lparr> Stride_x = ucast (strideXInBytes (strideInfo stride_info 0)),
                                  Stride_y = ucast (strideYInBytes (strideInfo stride_info 0)) \<rparr> \<rparr>,
                          wd3))))"

text \<open>
  The destructor: one destroy call on the stored handle; any status other than
  \<open>NV_OF_SUCCESS\<close> leads to \<open>std::terminate()\<close>, after a line on \<open>std::cerr\<close>
  that is not part of the state.
\<close>

definition OpticalFlowBuffer_dtor ::
  "'v OpticalFlowBuffer \<Rightarrow> 'v world \<Rightarrow> unit outcome \<times> 'v world" where
  "OpticalFlowBuffer_dtor this wd =
    (let (err, v1) = nvOFDestroyGPUBufferCuda (m_of_inst this) (m_handle this) (vendor wd);
         wd1 = \<lparr> vendor = v1, calls = calls wd @ [DestroyGPUBufferCuda (m_handle this)] \<rparr>
     in if err \<noteq> NV_OF_SUCCESS then (Terminated, wd1) else (Returned (), wd1))"

text \<open>
  The accessors are non-const member functions: each receives the object and the world
  and hands both back together with its return value.
\<close>

definition GetDescriptor ::
  "'v OpticalFlowBuffer \<Rightarrow> 'v world \<Rightarrow> NV_OF_BUFFER_DESCRIPTOR \<times> 'v OpticalFlowBuffer \<times> 'v world" where
  "GetDescriptor this wd = (m_descriptor this, this, wd)"

definition GetHandle ::
  "'v OpticalFlowBuffer \<Rightarrow> 'v world \<Rightarrow> NvOFGPUBufferHandle \<times> 'v OpticalFlowBuffer \<times> 'v world" where
  "GetHandle this wd = (m_handle this, this, wd)"

definition GetPtr ::
  "'v OpticalFlowBuffer \<Rightarrow> 'v world \<Rightarrow> CUdeviceptr \<times> 'v OpticalFlowBuffer \<times> 'v world" where
  "GetPtr this wd = (m_ptr this, this, wd)"

definition GetStride ::
  "'v OpticalFlowBuffer \<Rightarrow> 'v world \<Rightarrow> Stride \<times> 'v OpticalFlowBuffer \<times> 'v world" where
  "GetStride this wd = (m_stride this, this, wd)"

text \<open>A sequence of accessor calls on one instance, with the values they return.\<close>

datatype accessor = Call_GetDescriptor | Call_GetHandle | Call_GetPtr | Call_GetStride

datatype accessor_value =
    Descriptor_value NV_OF_BUFFER_DESCRIPTOR
  | Handle_value NvOFGPUBufferHandle
  | Ptr_value CUdeviceptr
  | Stride_value Stride

fun call_accessor ::
  "accessor \<Rightarrow> 'v OpticalFlowBuffer \<Rightarrow> 'v world
    \<Rightarrow> accessor_value \<times> 'v OpticalFlowBuffer \<times> 'v world" where
  "call_accessor Call_GetDescriptor this wd =
     (let (r, this', wd') = GetDescriptor this wd in (Descriptor_value r, this', wd'))"
| "call_accessor Call_GetHandle this wd =
     (let (r, this', wd') = GetHandle this wd in (Handle_value r, this', wd'))"
| "call_accessor Call_GetPtr this wd =
     (let (r, this', wd') = GetPtr this wd in (Ptr_value r, this', wd'))"
| "call_accessor Call_GetStride this wd =
     (let (r, this', wd') = GetStride this wd in (Stride_value r, this', wd'))"

fun call_accessors ::
  "accessor list \<Rightarrow> 'v OpticalFlowBuffer \<Rightarrow> 'v world
    \<Rightarrow> accessor_value list \<times> 'v OpticalFlowBuffer \<times> 'v world" where
  "call_accessors [] this wd = ([], this, wd)"
| "call_accessors (a # as) this wd =
     (let (r, this', wd') = call_accessor a this wd;
          (rs, this'', wd'') = call_accessors as this' wd'
      in (r # rs, this'', wd''))"

text \<open>The value each accessor returns on an object whose fields are as constructed.\<close>

fun constructed_value :: "'v OpticalFlowBuffer \<Rightarrow> accessor \<Rightarrow> accessor_value" where
  "constructed_value b Call_GetDescriptor = Descriptor_value (m_descriptor b)"
| "constructed_value b Call_GetHandle = Handle_value (m_handle b)"
| "constructed_value b Call_GetPtr = Ptr_value (m_ptr b)"
| "constructed_value b Call_GetStride = Stride_value (m_stride b)"

section \<open>The NPP symbol resolver (npp\_wrap.cc)\<close>

subsection \<open>The dynamic loader\<close>

text \<open>
  A \<open>void*\<close> is an address, with \<open>nullptr\<close> the address 0. \<open>dlopen\<close> and \<open>dlsym\<close>
  belong to the platform: the resolver receives them as an environment, which may differ
  from one call of the resolver to the next. \<open>dlopen\<close> is always called with the flag
  \<open>RTLD_NOW\<close>. Every call of either primitive is recorded, in order.
\<close>

abbreviation (input) nullptr :: nat where
  "nullptr \<equiv> 0"

record dl_env =
  dlopen :: "string \<Rightarrow> nat"
  dlsym :: "nat \<Rightarrow> string \<Rightarrow> nat"

datatype dl_call = Dlopen string | Dlsym nat string

fun is_dlsym :: "dl_call \<Rightarrow> bool" where
  "is_dlsym (Dlsym l n) = True"
| "is_dlsym c = False"

datatype npp_error = runtime_error string

subsection \<open>Library names\<close>

text \<open>
  The source spells these constants with two leading underscores. The versioned names
  are chosen by the preprocessor from \<open>CUDA_VERSION\<close>, a parameter of the build.
\<close>

definition NppcLibName :: string where
  "NppcLibName = ''libnppc.so''"

definition NppiccLibName :: string where
  "NppiccLibName = ''libnppicc.so''"

definition NppcLibNameCuVer :: "nat \<Rightarrow> string" where
  "NppcLibNameCuVer CUDA_VERSION =
     (if CUDA_VERSION \<ge> 11000 then ''libnppc.so.11'' else ''libnppc.so.10'')"

definition NppiccLibNameCuVer :: "nat \<Rightarrow> string" where
  "NppiccLibNameCuVer CUDA_VERSION =
     (if CUDA_VERSION \<ge> 11000 then ''libnppicc.so.11'' else ''libnppicc.so.10'')"

subsection \<open>Process-wide state\<close>

text \<open>
  The function-local statics of \<open>NppLoadSymbol\<close> and \<open>nppIsSymbolAvailable\<close>. A
  library handle is \<open>None\<close> until its initialiser has completed; an initialiser that
  throws leaves it \<open>None\<close>, and the next call runs it again. The mutex is held for the
  whole body of \<open>nppIsSymbolAvailable\<close> and released on return and on exception alike;
  within one thread it is free at every call, and it is not part of the state.
\<close>

record npp_state =
  nppcDrvLib :: "nat option"
  nppiccDrvLib :: "nat option"
  symbol_map :: "string \<rightharpoonup> nat"
  dl_calls :: "dl_call list"

definition initial_state :: npp_state where
  "initial_state =
     \<lparr> nppcDrvLib = None, nppiccDrvLib = None, symbol_map = Map.empty, dl_calls = [] \<rparr>"

subsection \<open>Loading the libraries\<close>

definition loadNppcLibrary :: "nat \<Rightarrow> dl_env \<Rightarrow> npp_state \<Rightarrow> (npp_error + nat) \<times> npp_state" where
  "loadNppcLibrary CUDA_VERSION env s =
    (let ret = dlopen env (NppcLibNameCuVer CUDA_VERSION);
         s1 = s\<lparr> dl_calls := dl_calls s @ [Dlopen (NppcLibNameCuVer CUDA_VERSION)] \<rparr>
     in if ret = nullptr then
          (let ret2 = dlopen env NppcLibName;
               s2 = s1\<lparr> dl_calls := dl_calls s1 @ [Dlopen NppcLibName] \<rparr>
           in if ret2 = nullptr then
                (Inl (runtime_error
                   (''dlopen libnppc.so failed!. Please install '' @
                    ''CUDA toolkit or NPP python wheel.'')), s2)
              else (Inr ret2, s2))
        else (Inr ret, s1))"

definition loadNppiccLibrary :: "nat \<Rightarrow> dl_env \<Rightarrow> npp_state \<Rightarrow> (npp_error + nat) \<times> npp_state" where
  "loadNppiccLibrary CUDA_VERSION env s =
    (let ret = dlopen env (NppiccLibNameCuVer CUDA_VERSION);
         s1 = s\<lparr> dl_calls := dl_calls s @ [Dlopen (NppiccLibNameCuVer CUDA_VERSION)] \<rparr>
     in if ret = nullptr then
          (let ret2 = dlopen env NppiccLibName;
               s2 = s1\<lparr> dl_calls := dl_calls s1 @ [Dlopen NppiccLibName] \<rparr>
           in if ret2 = nullptr then
                (Inl (runtime_error
                   (''dlopen libnppicc.so failed!. Please install '' @
                    ''CUDA toolkit or NPP python wheel.'')), s2)
              else (Inr ret2, s2))
        else (Inr ret, s1))"

text \<open>
  The initialisation of the two static handles of \<open>NppLoadSymbol\<close>: run once, on the
  first call that gets there, and again on a later call if it threw.
\<close>

definition static_nppcDrvLib :: "nat \<Rightarrow> dl_env \<Rightarrow> npp_state \<Rightarrow> (npp_error + nat) \<times> npp_state" where
  "static_nppcDrvLib CUDA_VERSION env s =
    (case nppcDrvLib s of
       Some lib \<Rightarrow> (Inr lib, s)
     | None \<Rightarrow>
        (case loadNppcLibrary CUDA_VERSION env s of
           (Inl e, s1) \<Rightarrow> (Inl e, s1)
         | (Inr lib, s1) \<Rightarrow> (Inr lib, s1\<lparr> nppcDrvLib := Some lib \<rparr>)))"

definition static_nppiccDrvLib :: "nat \<Rightarrow> dl_env \<Rightarrow> npp_state \<Rightarrow> (npp_error + nat) \<times> npp_state" where
  "static_nppiccDrvLib CUDA_VERSION env s =
    (case nppiccDrvLib s of
       Some lib \<Rightarrow> (Inr lib, s)
     | None \<Rightarrow>
        (case loadNppiccLibrary CUDA_VERSION env s of
           (Inl e, s1) \<Rightarrow> (Inl e, s1)
         | (Inr lib, s1) \<Rightarrow> (Inr lib, s1\<lparr> nppiccDrvLib := Some lib \<rparr>)))"

subsection \<open>Resolving a symbol\<close>

definition NppLoadSymbol ::
  "nat \<Rightarrow> dl_env \<Rightarrow> string \<Rightarrow> npp_state \<Rightarrow> (npp_error + nat) \<times> npp_state" where
  "NppLoadSymbol CUDA_VERSION env name s =
    (case static_nppcDrvLib CUDA_VERSION env s of
       (Inl e, s1) \<Rightarrow> (Inl e, s1)
     | (Inr nppcLib, s1) \<Rightarrow>
        (case static_nppiccDrvLib CUDA_VERSION env s1 of
           (Inl e, s2) \<Rightarrow> (Inl e, s2)
         | (Inr nppiccLib, s2) \<Rightarrow>
            (let (ret, s3) =
                   (if nppiccLib \<noteq> nullptr
                    then (dlsym env nppiccLib name,
                          s2\<lparr> dl_calls := dl_calls s2 @ [Dlsym nppiccLib name] \<rparr>)
                    else (nullptr, s2))
             in if ret = nullptr then
                  (if nppcLib \<noteq> nullptr
                   then (Inr (dlsym env nppcLib name),
                         s3\<lparr> dl_calls := dl_calls s3 @ [Dlsym nppcLib name] \<rparr>)
                   else (Inr nullptr, s3))
                else (Inr ret, s3))))"

definition nppIsSymbolAvailable ::
  "nat \<Rightarrow> dl_env \<Rightarrow> string \<Rightarrow> npp_state \<Rightarrow> (npp_error + bool) \<times> npp_state" where
  "nppIsSymbolAvailable CUDA_VERSION env name s =
    (case symbol_map s name of
       None \<Rightarrow>
        (case NppLoadSymbol CUDA_VERSION env name s of
           (Inl e, s1) \<Rightarrow> (Inl e, s1)
         | (Inr ptr, s1) \<Rightarrow>
            (Inr (ptr \<noteq> nullptr), s1\<lparr> symbol_map := (symbol_map s1)(name \<mapsto> ptr) \<rparr>))
     | Some ptr \<Rightarrow> (Inr (ptr \<noteq> nullptr), s))"

text \<open>
  A caller that asks about several symbols, one after the other, each under the loader
  environment of its moment, and carries on after an exception.
\<close>

fun nppIsSymbolAvailable_calls ::
  "nat \<Rightarrow> (dl_env \<times> string) list \<Rightarrow> npp_state \<Rightarrow> npp_state" where
  "nppIsSymbolAvailable_calls CUDA_VERSION [] s = s"
| "nppIsSymbolAvailable_calls CUDA_VERSION ((env, name) # rest) s =
     nppIsSymbolAvailable_calls CUDA_VERSION rest
       (snd (nppIsSymbolAvailable CUDA_VERSION env name s))"

section \<open>Test doubles\<close>

text \<open>
  A vendor table whose driver state counts the live buffers: create succeeds with
  handle 7, the device pointer and the status of destroy are parameters, and plane 0 has
  strides 640 and 2048.
\<close>

definition mock_function_list ::
  "CUdeviceptr \<Rightarrow> NV_OF_STATUS \<Rightarrow> nat NV_OF_CUDA_API_FUNCTION_LIST" where
  "mock_function_list p st =
     \<lparr> nvOFCreateGPUBufferCuda = (\<lambda>oh d t v. ((NV_OF_SUCCESS, 7), Suc v)),
       nvOFGPUBufferGetCUdeviceptr = (\<lambda>bh v. (p, v)),
       nvOFGPUBufferGetStrideInfo =
         (\<lambda>bh v. ((NV_OF_SUCCESS,
                    \<lparr> strideInfo = (\<lambda>plane. \<lparr> strideXInBytes = 640, strideYInBytes = 2048 \<rparr>),
                      numPlanes = 1 \<rparr>), v)),
       nvOFDestroyGPUBufferCuda = (\<lambda>bh v. (st, v - 1)) \<rparr>"

definition mock_world :: "nat world" where
  "mock_world = \<lparr> vendor = 0, calls = [] \<rparr>"

text \<open>
  A loader that knows a fixed list of library files (name and handle) and of exported
  symbols (handle, symbol name and address).
\<close>

fun lookup_default :: "('k \<times> nat) list \<Rightarrow> 'k \<Rightarrow> nat" where
  "lookup_default [] k = nullptr"
| "lookup_default ((k', v) # kvs) k = (if k = k' then v else lookup_default kvs k)"

definition mock_env :: "(string \<times> nat) list \<Rightarrow> ((nat \<times> string) \<times> nat) list \<Rightarrow> dl_env" where
  "mock_env libs syms =
     \<lparr> dlopen = lookup_default libs, dlsym = (\<lambda>l n. lookup_default syms (l, n)) \<rparr>"

section \<open>Properties of the buffer wrapper\<close>

subsection \<open>Conversions between the integer widths\<close>

lemma widen_unat: "unat (ucast (s :: 32 word) :: 64 word) = unat s"
proof -
  have "unat s < 2 ^ 32"
    using unsigned_less [of s] by simp
  then have "unat s < 2 ^ 64"
    by simp
  then show ?thesis
    by (simp add: unsigned_ucast_eq take_bit_nat_eq_self)
qed

subsection \<open>Descriptor narrowing\<close>

lemma ucast_64_32_unat: "unat (ucast (w :: 64 word) :: 32 word) = unat w mod 2 ^ 32"
  by (simp add: unsigned_ucast_eq take_bit_eq_mod)

text \<open>
  C9. The descriptor stores width and height narrowed from \<open>size_t\<close> to
  \<open>uint32_t\<close> without a range check: the stored value is the input modulo \<open>2^32\<close>,
  so it agrees with the input exactly for inputs below \<open>2^32\<close>.
\<close>

theorem GenerateBufferDescriptor_narrows:
  "unat (width (GenerateBufferDescriptor w h format usage)) = unat w mod 2 ^ 32
   \<and> unat (height (GenerateBufferDescriptor w h format usage)) = unat h mod 2 ^ 32
   \<and> ((unat (width (GenerateBufferDescriptor w h format usage)) = unat w) = (unat w < 2 ^ 32))
   \<and> ((unat (height (GenerateBufferDescriptor w h format usage)) = unat h) = (unat h < 2 ^ 32))"
  by (simp add: GenerateBufferDescriptor_def ucast_64_32_unat mod_eq_self_iff_div_eq_0 div_eq_0_iff)

subsection \<open>The accessors\<close>

lemma call_accessor_eq: "call_accessor a b wd = (constructed_value b a, b, wd)"
  by (cases a) (simp_all add: GetDescriptor_def GetHandle_def GetPtr_def GetStride_def)

lemma call_accessors_eq: "call_accessors as b wd = (map (constructed_value b) as, b, wd)"
  by (induction as) (simp_all add: call_accessor_eq)

subsection \<open>The constructor, by the results of its three vendor calls\<close>

lemma ctor_unfold:
  assumes cr: "nvOFCreateGPUBufferCuda fl of_handle (GenerateBufferDescriptor w h format usage)
               NV_OF_CUDA_BUFFER_TYPE_CUDEVICEPTR (vendor wd) = ((st1, bh), v1)"
    and gp: "nvOFGPUBufferGetCUdeviceptr fl bh v1 = (p, v2)"
    and gs: "nvOFGPUBufferGetStrideInfo fl bh v2 = ((st3, si), v3)"
  shows "OpticalFlowBuffer_ctor of_handle w h fl usage format wd =
    (if st1 \<noteq> NV_OF_SUCCESS then
       (Threw (CUDAError st1),
        \<lparr> vendor = v1,
          calls = calls wd @
            [CreateGPUBufferCuda of_handle (GenerateBufferDescriptor w h format usage)
               NV_OF_CUDA_BUFFER_TYPE_CUDEVICEPTR] \<rparr>)
     else if p = 0 then
       (Threw (DALIException ''Invalid pointer''),
        \<lparr> vendor = v2,
          calls = calls wd @
            [CreateGPUBufferCuda of_handle (GenerateBufferDescriptor w h format usage)
               NV_OF_CUDA_BUFFER_TYPE_CUDEVICEPTR,
             GPUBufferGetCUdeviceptr bh] \<rparr>)
     else if st3 \<noteq> NV_OF_SUCCESS then
       (Threw (CUDAError st3),
        \<lparr> vendor = v3,
          calls = calls wd @
            [CreateGPUBufferCuda of_handle (GenerateBufferDescriptor w h format usage)
               NV_OF_CUDA_BUFFER_TYPE_CUDEVICEPTR,
             GPUBufferGetCUdeviceptr bh, GPUBufferGetStrideInfo bh] \<rparr>)
     else
       (Returned
          \<lparr> m_of_inst = fl,
            m_descriptor = GenerateBufferDescriptor w h format usage,
            m_handle = bh, m_ptr = p,
            m_stride = \<lparr> Stride_x = ucast (strideXInBytes (strideInfo si 0)),
                         Stride_y = ucast (strideYInBytes (strideInfo si 0)) \<rparr> \<rparr>,
        \<lparr> vendor = v3,
          calls = calls wd @
            [CreateGPUBufferCuda of_handle (GenerateBufferDescriptor w h format usage)
               NV_OF_CUDA_BUFFER_TYPE_CUDEVICEPTR,
             GPUBufferGetCUdeviceptr bh, GPUBufferGetStrideInfo bh] \<rparr>))"
  unfolding OpticalFlowBuffer_ctor_def Let_def cr
  by (simp add: gp gs CUDA_CALL_def DALI_ENFORCE_def)

lemma ctor_Returned:
  assumes ret: "OpticalFlowBuffer_ctor of_handle w h fl usage format wd = (Returned b, wd')"
    and cr: "nvOFCreateGPUBufferCuda fl of_handle (GenerateBufferDescriptor w h format usage)
               NV_OF_CUDA_BUFFER_TYPE_CUDEVICEPTR (vendor wd) = ((st1, bh), v1)"
    and gp: "nvOFGPUBufferGetCUdeviceptr fl bh v1 = (p, v2)"
    and gs: "nvOFGPUBufferGetStrideInfo fl bh v2 = ((st3, si), v3)"
  shows "st1 = NV_OF_SUCCESS \<and> p \<noteq> 0 \<and> st3 = NV_OF_SUCCESS
     \<and> b = \<lparr> m_of_inst = fl,
             m_descriptor = GenerateBufferDescriptor w h format usage,
             m_handle = bh, m_ptr = p,
             m_stride = \<lparr> Stride_x = ucast (strideXInBytes (strideInfo si 0)),
                          Stride_y = ucast (strideYInBytes (strideInfo si 0)) \<rparr> \<rparr>
     \<and> wd' = \<lparr> vendor = v3,
               calls = calls wd @
                 [CreateGPUBufferCuda of_handle (GenerateBufferDescriptor w h format usage)
                    NV_OF_CUDA_BUFFER_TYPE_CUDEVICEPTR,
                  GPUBufferGetCUdeviceptr bh, GPUBufferGetStrideInfo bh] \<rparr>"
proof -
  note u = ctor_unfold [OF cr gp gs]
  show ?thesis
  proof (cases "st1 = NV_OF_SUCCESS")
    case False
    with ret u show ?thesis by simp
  next
    case s1: True
    show ?thesis
    proof (cases "p = 0")
      case True
      with ret u s1 show ?thesis by simp
    next
      case p0: False
      show ?thesis
      proof (cases "st3 = NV_OF_SUCCESS")
        case False
        with ret u s1 p0 show ?thesis by simp
      next
        case True
        with ret u s1 p0 show ?thesis by simp
      qed
    qed
  qed
qed

lemma ctor_fields:
  assumes ret: "OpticalFlowBuffer_ctor of_handle w h fl usage format wd = (Returned b, wd')"
  shows "m_of_inst b = fl \<and> m_descriptor b = GenerateBufferDescriptor w h format usage"
proof -
  obtain st1 bh v1 where cr:
    "nvOFCreateGPUBufferCuda fl of_handle (GenerateBufferDescriptor w h format usage)
       NV_OF_CUDA_BUFFER_TYPE_CUDEVICEPTR (vendor wd) = ((st1, bh), v1)"
    by (metis prod.exhaust)
  obtain p v2 where gp: "nvOFGPUBufferGetCUdeviceptr fl bh v1 = (p, v2)"
    by (metis prod.exhaust)
  obtain st3 si v3 where gs: "nvOFGPUBufferGetStrideInfo fl bh v2 = ((st3, si), v3)"
    by (metis prod.exhaust)
  from ctor_Returned [OF ret cr gp gs] show ?thesis by simp
qed

lemma mock_ctor:
  "p \<noteq> 0 \<Longrightarrow>
   OpticalFlowBuffer_ctor 1 640 480 (mock_function_list p st) 1 2 mock_world =
     (Returned
        \<lparr> m_of_inst = mock_function_list p st,
          m_descriptor = GenerateBufferDescriptor 640 480 2 1,
          m_handle = 7, m_ptr = p,
          m_stride = \<lparr> Stride_x = 640, Stride_y = 2048 \<rparr> \<rparr>,
      \<lparr> vendor = 1,
        calls = [CreateGPUBufferCuda 1 (GenerateBufferDescriptor 640 480 2 1)
                   NV_OF_CUDA_BUFFER_TYPE_CUDEVICEPTR,
                 GPUBufferGetCUdeviceptr 7, GPUBufferGetStrideInfo 7] \<rparr>)"
  by (simp add: OpticalFlowBuffer_ctor_def mock_function_list_def mock_world_def
        CUDA_CALL_def DALI_ENFORCE_def Let_def)

subsection \<open>Destruction\<close>

text \<open>
  C1. For a constructed buffer, the destructor makes exactly one call through the
  function table given at construction, \<open>nvOFDestroyGPUBufferCuda\<close> on the stored
  handle, whatever has happened in the world since. A status other than
  \<open>NV_OF_SUCCESS\<close> terminates the process, success returns normally, and no status
  leads to an exception.
\<close>

theorem dtor_one_release_call:
  assumes "OpticalFlowBuffer_ctor of_handle w h fl usage format wd0 = (Returned b, wd1)"
  shows "calls (snd (OpticalFlowBuffer_dtor b wd)) = calls wd @ [DestroyGPUBufferCuda (m_handle b)]
    \<and> length (filter is_destroy (calls (snd (OpticalFlowBuffer_dtor b wd)))) =
        Suc (length (filter is_destroy (calls wd)))
    \<and> vendor (snd (OpticalFlowBuffer_dtor b wd)) =
        snd (nvOFDestroyGPUBufferCuda fl (m_handle b) (vendor wd))
    \<and> fst (OpticalFlowBuffer_dtor b wd) =
        (if fst (nvOFDestroyGPUBufferCuda fl (m_handle b) (vendor wd)) = NV_OF_SUCCESS
         then Returned () else Terminated)
    \<and> (\<forall>e. fst (OpticalFlowBuffer_dtor b wd) \<noteq> Threw e)"
proof -
  have fl: "m_of_inst b = fl"
    using ctor_fields [OF assms] by simp
  obtain err v1 where d: "nvOFDestroyGPUBufferCuda fl (m_handle b) (vendor wd) = (err, v1)"
    by (metis prod.exhaust)
  show ?thesis
    by (simp add: OpticalFlowBuffer_dtor_def fl d)
qed

theorem dtor_one_release_call_witness:
  "fst (OpticalFlowBuffer_ctor 1 640 480 (mock_function_list 4096 (NV_OF_ERR 3)) 1 2 mock_world) =
     Returned \<lparr> m_of_inst = mock_function_list 4096 (NV_OF_ERR 3),
                m_descriptor = GenerateBufferDescriptor 640 480 2 1,
                m_handle = 7, m_ptr = 4096,
                m_stride = \<lparr> Stride_x = 640, Stride_y = 2048 \<rparr> \<rparr>
   \<and> OpticalFlowBuffer_dtor
        \<lparr> m_of_inst = mock_function_list 4096 (NV_OF_ERR 3),
          m_descriptor = GenerateBufferDescriptor 640 480 2 1,
          m_handle = 7, m_ptr = 4096,
          m_stride = \<lparr> Stride_x = 640, Stride_y = 2048 \<rparr> \<rparr>
        \<lparr> vendor = 1, calls = [] \<rparr> =
      (Terminated, \<lparr> vendor = 0, calls = [DestroyGPUBufferCuda 7] \<rparr>)"
proof -
  have c: "OpticalFlowBuffer_ctor 1 640 480 (mock_function_list 4096 (NV_OF_ERR 3)) 1 2 mock_world =
     (Returned
        \<lparr> m_of_inst = mock_function_list 4096 (NV_OF_ERR 3),
          m_descriptor = GenerateBufferDescriptor 640 480 2 1,
          m_handle = 7, m_ptr = 4096,
          m_stride = \<lparr> Stride_x = 640, Stride_y = 2048 \<rparr> \<rparr>,
      \<lparr> vendor = 1,
        calls = [CreateGPUBufferCuda 1 (GenerateBufferDescriptor 640 480 2 1)
                   NV_OF_CUDA_BUFFER_TYPE_CUDEVICEPTR,
                 GPUBufferGetCUdeviceptr 7, GPUBufferGetStrideInfo 7] \<rparr>)"
    by (rule mock_ctor) simp
  from dtor_one_release_call [OF c, of "\<lparr> vendor = 1, calls = [] \<rparr>"] c
  show ?thesis
    by (simp add: mock_function_list_def prod_eq_iff world.equality)
qed

subsection \<open>Construction with a null device pointer\<close>

text \<open>
  C2. When the create call reports success and the device pointer read from the new
  handle is 0, the constructor throws (\<open>Invalid pointer\<close>), so no object comes into
  existence; the only vendor calls made are the create call and the pointer query, and
  in particular no destroy call is made for the handle.
\<close>

theorem ctor_null_pointer_throws:
  assumes cr: "nvOFCreateGPUBufferCuda fl of_handle (GenerateBufferDescriptor w h format usage)
                 NV_OF_CUDA_BUFFER_TYPE_CUDEVICEPTR (vendor wd) = ((NV_OF_SUCCESS, bh), v1)"
    and gp: "fst (nvOFGPUBufferGetCUdeviceptr fl bh v1) = 0"
  shows "fst (OpticalFlowBuffer_ctor of_handle w h fl usage format wd) =
           Threw (DALIException ''Invalid pointer'')
    \<and> (\<forall>b. fst (OpticalFlowBuffer_ctor of_handle w h fl usage format wd) \<noteq> Returned b)
    \<and> calls (snd (OpticalFlowBuffer_ctor of_handle w h fl usage format wd)) =
         calls wd @
           [CreateGPUBufferCuda of_handle (GenerateBufferDescriptor w h format usage)
              NV_OF_CUDA_BUFFER_TYPE_CUDEVICEPTR,
            GPUBufferGetCUdeviceptr bh]
    \<and> filter is_destroy (calls (snd (OpticalFlowBuffer_ctor of_handle w h fl usage format wd))) =
         filter is_destroy (calls wd)"
proof -
  obtain v2 where gp': "nvOFGPUBufferGetCUdeviceptr fl bh v1 = (0, v2)"
    using gp by (metis prod.collapse)
  obtain st3 si v3 where gs: "nvOFGPUBufferGetStrideInfo fl bh v2 = ((st3, si), v3)"
    by (metis prod.exhaust)
  show ?thesis
    by (simp add: ctor_unfold [OF cr gp' gs])
qed

theorem ctor_null_pointer_throws_witness:
  "nvOFCreateGPUBufferCuda (mock_function_list 0 NV_OF_SUCCESS) 1
     (GenerateBufferDescriptor 640 480 2 1) NV_OF_CUDA_BUFFER_TYPE_CUDEVICEPTR (vendor mock_world) =
     ((NV_OF_SUCCESS, 7), 1)
   \<and> fst (nvOFGPUBufferGetCUdeviceptr (mock_function_list 0 NV_OF_SUCCESS) 7 1) = 0
   \<and> fst (OpticalFlowBuffer_ctor 1 640 480 (mock_function_list 0 NV_OF_SUCCESS) 1 2 mock_world) =
       Threw (DALIException ''Invalid pointer'')
   \<and> calls (snd (OpticalFlowBuffer_ctor 1 640 480 (mock_function_list 0 NV_OF_SUCCESS) 1 2 mock_world)) =
       [CreateGPUBufferCuda 1 (GenerateBufferDescriptor 640 480 2 1)
          NV_OF_CUDA_BUFFER_TYPE_CUDEVICEPTR,
        GPUBufferGetCUdeviceptr 7]"
proof -
  have cr: "nvOFCreateGPUBufferCuda (mock_function_list 0 NV_OF_SUCCESS) 1
     (GenerateBufferDescriptor 640 480 2 1) NV_OF_CUDA_BUFFER_TYPE_CUDEVICEPTR (vendor mock_world) =
     ((NV_OF_SUCCESS, 7), 1)"
    by (simp add: mock_function_list_def mock_world_def)
  have gp: "fst (nvOFGPUBufferGetCUdeviceptr (mock_function_list 0 NV_OF_SUCCESS) 7 1) = 0"
    by (simp add: mock_function_list_def)
  from ctor_null_pointer_throws [OF cr gp] cr gp show ?thesis
    by (simp add: mock_world_def)
qed

subsection \<open>The stride pair\<close>

text \<open>
  C7. For a constructed buffer, \<open>GetStride\<close> returns the two byte strides of plane 0
  that the stride-info call made during construction reported for the new handle, as
  the same numbers, and a sequence of accessor calls does not change what it returns.
\<close>

theorem GetStride_is_plane0_stride:
  assumes ret: "OpticalFlowBuffer_ctor of_handle w h fl usage format wd = (Returned b, wd1)"
    and cr: "nvOFCreateGPUBufferCuda fl of_handle (GenerateBufferDescriptor w h format usage)
               NV_OF_CUDA_BUFFER_TYPE_CUDEVICEPTR (vendor wd) = ((st1, bh), v1)"
    and gp: "nvOFGPUBufferGetCUdeviceptr fl bh v1 = (p, v2)"
    and gs: "nvOFGPUBufferGetStrideInfo fl bh v2 = ((st3, si), v3)"
  shows "unat (Stride_x (fst (GetStride b wd2))) = unat (strideXInBytes (strideInfo si 0))
    \<and> unat (Stride_y (fst (GetStride b wd2))) = unat (strideYInBytes (strideInfo si 0))
    \<and> fst (GetStride (fst (snd (call_accessors as b wd2))) (snd (snd (call_accessors as b wd2)))) =
        fst (GetStride b wd2)"
proof -
  from ctor_Returned [OF ret cr gp gs]
  have "m_stride b = \<lparr> Stride_x = ucast (strideXInBytes (strideInfo si 0)),
                        Stride_y = ucast (strideYInBytes (strideInfo si 0)) \<rparr>"
    by simp
  then show ?thesis
    by (simp add: GetStride_def widen_unat call_accessors_eq)
qed

theorem GetStride_is_plane0_stride_witness:
  "unat (Stride_x (fst (GetStride
     \<lparr> m_of_inst = mock_function_list 4096 NV_OF_SUCCESS,
       m_descriptor = GenerateBufferDescriptor 640 480 2 1,
       m_handle = 7, m_ptr = 4096,
       m_stride = \<lparr> Stride_x = 640, Stride_y = 2048 \<rparr> \<rparr> mock_world))) = 640
   \<and> unat (Stride_y (fst (GetStride
     \<lparr> m_of_inst = mock_function_list 4096 NV_OF_SUCCESS,
       m_descriptor = GenerateBufferDescriptor 640 480 2 1,
       m_handle = 7, m_ptr = 4096,
       m_stride = \<lparr> Stride_x = 640, Stride_y = 2048 \<rparr> \<rparr> mock_world))) = 2048"
proof -
  have ret: "OpticalFlowBuffer_ctor 1 640 480 (mock_function_list 4096 NV_OF_SUCCESS) 1 2 mock_world =
     (Returned
        \<lparr> m_of_inst = mock_function_list 4096 NV_OF_SUCCESS,
          m_descriptor = GenerateBufferDescriptor 640 480 2 1,
          m_handle = 7, m_ptr = 4096,
          m_stride = \<lparr> Stride_x = 640, Stride_y = 2048 \<rparr> \<rparr>,
      \<lparr> vendor = 1,
        calls = [CreateGPUBufferCuda 1 (GenerateBufferDescriptor 640 480 2 1)
                   NV_OF_CUDA_BUFFER_TYPE_CUDEVICEPTR,
                 GPUBufferGetCUdeviceptr 7, GPUBufferGetStrideInfo 7] \<rparr>)"
    by (rule mock_ctor) simp
  have cr: "nvOFCreateGPUBufferCuda (mock_function_list 4096 NV_OF_SUCCESS) 1
     (GenerateBufferDescriptor 640 480 2 1) NV_OF_CUDA_BUFFER_TYPE_CUDEVICEPTR (vendor mock_world) =
     ((NV_OF_SUCCESS, 7), 1)"
    by (simp add: mock_function_list_def mock_world_def)
  have gp: "nvOFGPUBufferGetCUdeviceptr (mock_function_list 4096 NV_OF_SUCCESS) 7 1 = (4096, 1)"
    by (simp add: mock_function_list_def)
  have gs: "nvOFGPUBufferGetStrideInfo (mock_function_list 4096 NV_OF_SUCCESS) 7 1 =
    ((NV_OF_SUCCESS,
      \<lparr> strideInfo = (\<lambda>plane. \<lparr> strideXInBytes = 640, strideYInBytes = 2048 \<rparr>),
        numPlanes = 1 \<rparr>), 1)"
    by (simp add: mock_function_list_def)
  from GetStride_is_plane0_stride [OF ret cr gp gs, where ?wd2.0 = mock_world and as = "[]"]
  show ?thesis
    by simp
qed

subsection \<open>The descriptor\<close>

text \<open>
  C8. The descriptor of a constructed buffer is \<open>GenerateBufferDescriptor\<close> of the
  width, height, format and usage given to the constructor and of nothing else: two
  constructions with these four inputs equal, on whatever session, function table and
  world, have equal descriptors; and \<open>GetDescriptor\<close> returns that value, also after
  any sequence of accessor calls.
\<close>

theorem descriptor_function_of_four_inputs:
  assumes c1: "OpticalFlowBuffer_ctor of_handle1 w h fl1 usage format wd1 = (Returned b1, wd1')"
    and c2: "OpticalFlowBuffer_ctor of_handle2 w h fl2 usage format wd2 = (Returned b2, wd2')"
  shows "fst (GetDescriptor b1 wd3) = GenerateBufferDescriptor w h format usage
    \<and> fst (GetDescriptor b1 wd3) = fst (GetDescriptor b2 wd4)
    \<and> fst (GetDescriptor (fst (snd (call_accessors as b1 wd3)))
             (snd (snd (call_accessors as b1 wd3)))) = GenerateBufferDescriptor w h format usage"
  using ctor_fields [OF c1] ctor_fields [OF c2]
  by (simp add: GetDescriptor_def call_accessors_eq)

theorem descriptor_function_of_four_inputs_witness:
  "fst (GetDescriptor
     \<lparr> m_of_inst = mock_function_list 4096 NV_OF_SUCCESS,
       m_descriptor = GenerateBufferDescriptor 640 480 2 1,
       m_handle = 7, m_ptr = 4096,
       m_stride = \<lparr> Stride_x = 640, Stride_y = 2048 \<rparr> \<rparr> mock_world) =
     \<lparr> width = 640, height = 480, bufferUsage = 1, bufferFormat = 2 \<rparr>
   \<and> fst (GetDescriptor
     \<lparr> m_of_inst = mock_function_list 4096 NV_OF_SUCCESS,
       m_descriptor = GenerateBufferDescriptor 640 480 2 1,
       m_handle = 7, m_ptr = 4096,
       m_stride = \<lparr> Stride_x = 640, Stride_y = 2048 \<rparr> \<rparr> mock_world) =
     fst (GetDescriptor
     \<lparr> m_of_inst = mock_function_list 8192 (NV_OF_ERR 1),
       m_descriptor = GenerateBufferDescriptor 640 480 2 1,
       m_handle = 7, m_ptr = 8192,
       m_stride = \<lparr> Stride_x = 640, Stride_y = 2048 \<rparr> \<rparr> mock_world)"
proof -
  have c1: "OpticalFlowBuffer_ctor 1 640 480 (mock_function_list 4096 NV_OF_SUCCESS) 1 2 mock_world =
     (Returned
        \<lparr> m_of_inst = mock_function_list 4096 NV_OF_SUCCESS,
          m_descriptor = GenerateBufferDescriptor 640 480 2 1,
          m_handle = 7, m_ptr = 4096,
          m_stride = \<lparr> Stride_x = 640, Stride_y = 2048 \<rparr> \<rparr>,
      \<lparr> vendor = 1,
        calls = [CreateGPUBufferCuda 1 (GenerateBufferDescriptor 640 480 2 1)
                   NV_OF_CUDA_BUFFER_TYPE_CUDEVICEPTR,
                 GPUBufferGetCUdeviceptr 7, GPUBufferGetStrideInfo 7] \<rparr>)"
    by (rule mock_ctor) simp
  have c2: "OpticalFlowBuffer_ctor 1 640 480 (mock_function_list 8192 (NV_OF_ERR 1)) 1 2 mock_world =
     (Returned
        \<lparr> m_of_inst = mock_function_list 8192 (NV_OF_ERR 1),
          m_descriptor = GenerateBufferDescriptor 640 480 2 1,
          m_handle = 7, m_ptr = 8192,
          m_stride = \<lparr> Stride_x = 640, Stride_y = 2048 \<rparr> \<rparr>,
      \<lparr> vendor = 1,
        calls = [CreateGPUBufferCuda 1 (GenerateBufferDescriptor 640 480 2 1)
                   NV_OF_CUDA_BUFFER_TYPE_CUDEVICEPTR,
                 GPUBufferGetCUdeviceptr 7, GPUBufferGetStrideInfo 7] \<rparr>)"
    by (rule mock_ctor) simp
  from descriptor_function_of_four_inputs
         [OF c1 c2, where ?wd3.0 = mock_world and ?wd4.0 = mock_world and as = "[]"]
  show ?thesis
    by (simp add: GenerateBufferDescriptor_def GetDescriptor_def)
qed

subsection \<open>Accessors as observers\<close>

text \<open>
  C10. On a constructed buffer, any sequence of calls of the four accessors, in any
  world, returns for each call the value of the corresponding field as the constructor
  set it, leaves every field of the object as it was, and leaves the world as it was:
  the driver state is untouched and no vendor call is recorded.
\<close>

theorem accessors_are_observers:
  assumes "OpticalFlowBuffer_ctor of_handle w h fl usage format wd0 = (Returned b, wd1)"
  shows "call_accessors as b wd = (map (constructed_value b) as, b, wd)
    \<and> calls (snd (snd (call_accessors as b wd))) = calls wd
    \<and> vendor (snd (snd (call_accessors as b wd))) = vendor wd"
  by (simp add: call_accessors_eq)

theorem accessors_are_observers_witness:
  "call_accessors [Call_GetPtr, Call_GetStride, Call_GetHandle, Call_GetDescriptor, Call_GetPtr]
     \<lparr> m_of_inst = mock_function_list 4096 NV_OF_SUCCESS,
       m_descriptor = GenerateBufferDescriptor 640 480 2 1,
       m_handle = 7, m_ptr = 4096,
       m_stride = \<lparr> Stride_x = 640, Stride_y = 2048 \<rparr> \<rparr>
     \<lparr> vendor = 1, calls = [] \<rparr> =
   ([Ptr_value 4096, Stride_value \<lparr> Stride_x = 640, Stride_y = 2048 \<rparr>, Handle_value 7,
     Descriptor_value \<lparr> width = 640, height = 480, bufferUsage = 1, bufferFormat = 2 \<rparr>,
     Ptr_value 4096],
    \<lparr> m_of_inst = mock_function_list 4096 NV_OF_SUCCESS,
      m_descriptor = GenerateBufferDescriptor 640 480 2 1,
      m_handle = 7, m_ptr = 4096,
      m_stride = \<lparr> Stride_x = 640, Stride_y = 2048 \<rparr> \<rparr>,
    \<lparr> vendor = 1, calls = [] \<rparr>)"
proof -
  have c: "OpticalFlowBuffer_ctor 1 640 480 (mock_function_list 4096 NV_OF_SUCCESS) 1 2 mock_world =
     (Returned
        \<lparr> m_of_inst = mock_function_list 4096 NV_OF_SUCCESS,
          m_descriptor = GenerateBufferDescriptor 640 480 2 1,
          m_handle = 7, m_ptr = 4096,
          m_stride = \<lparr> Stride_x = 640, Stride_y = 2048 \<rparr> \<rparr>,
      \<lparr> vendor = 1,
        calls = [CreateGPUBufferCuda 1 (GenerateBufferDescriptor 640 480 2 1)
                   NV_OF_CUDA_BUFFER_TYPE_CUDEVICEPTR,
                 GPUBufferGetCUdeviceptr 7, GPUBufferGetStrideInfo 7] \<rparr>)"
    by (rule mock_ctor) simp
  from accessors_are_observers [OF c,
      of "[Call_GetPtr, Call_GetStride, Call_GetHandle, Call_GetDescriptor, Call_GetPtr]"
         "\<lparr> vendor = 1, calls = [] \<rparr>"]
  show ?thesis
    by (simp add: GenerateBufferDescriptor_def)
qed

section \<open>Properties of the symbol resolver\<close>

subsection \<open>Loading a library\<close>

lemma loadNppcLibrary_eq:
  "loadNppcLibrary cv env s =
    (if dlopen env (NppcLibNameCuVer cv) \<noteq> 0 then
       (Inr (dlopen env (NppcLibNameCuVer cv)),
        s\<lparr> dl_calls := dl_calls s @ [Dlopen (NppcLibNameCuVer cv)] \<rparr>)
     else if dlopen env NppcLibName \<noteq> 0 then
       (Inr (dlopen env NppcLibName),
        s\<lparr> dl_calls := dl_calls s @ [Dlopen (NppcLibNameCuVer cv), Dlopen NppcLibName] \<rparr>)
     else
       (Inl (runtime_error
          (''dlopen '' @ NppcLibName @
           '' failed!. Please install CUDA toolkit or NPP python wheel.'')),
        s\<lparr> dl_calls := dl_calls s @ [Dlopen (NppcLibNameCuVer cv), Dlopen NppcLibName] \<rparr>))"
  by (simp add: loadNppcLibrary_def Let_def NppcLibName_def)

lemma loadNppiccLibrary_eq:
  "loadNppiccLibrary cv env s =
    (if dlopen env (NppiccLibNameCuVer cv) \<noteq> 0 then
       (Inr (dlopen env (NppiccLibNameCuVer cv)),
        s\<lparr> dl_calls := dl_calls s @ [Dlopen (NppiccLibNameCuVer cv)] \<rparr>)
     else if dlopen env NppiccLibName \<noteq> 0 then
       (Inr (dlopen env NppiccLibName),
        s\<lparr> dl_calls := dl_calls s @ [Dlopen (NppiccLibNameCuVer cv), Dlopen NppiccLibName] \<rparr>)
     else
       (Inl (runtime_error
          (''dlopen '' @ NppiccLibName @
           '' failed!. Please install CUDA toolkit or NPP python wheel.'')),
        s\<lparr> dl_calls := dl_calls s @ [Dlopen (NppiccLibNameCuVer cv), Dlopen NppiccLibName] \<rparr>))"
  by (simp add: loadNppiccLibrary_def Let_def NppiccLibName_def)

lemma loadNppcLibrary_frame:
  "nppcDrvLib (snd (loadNppcLibrary cv env s)) = nppcDrvLib s
   \<and> nppiccDrvLib (snd (loadNppcLibrary cv env s)) = nppiccDrvLib s
   \<and> symbol_map (snd (loadNppcLibrary cv env s)) = symbol_map s"
  by (simp add: loadNppcLibrary_eq)

lemma loadNppiccLibrary_frame:
  "nppcDrvLib (snd (loadNppiccLibrary cv env s)) = nppcDrvLib s
   \<and> nppiccDrvLib (snd (loadNppiccLibrary cv env s)) = nppiccDrvLib s
   \<and> symbol_map (snd (loadNppiccLibrary cv env s)) = symbol_map s"
  by (simp add: loadNppiccLibrary_eq)

subsection \<open>The static handles\<close>

lemma static_nppcDrvLib_cases:
  "static_nppcDrvLib cv env s =
    (case nppcDrvLib s of
       Some lib \<Rightarrow> (Inr lib, s)
     | None \<Rightarrow>
        (case fst (loadNppcLibrary cv env s) of
           Inl e \<Rightarrow> (Inl e, snd (loadNppcLibrary cv env s))
         | Inr lib \<Rightarrow> (Inr lib, (snd (loadNppcLibrary cv env s))\<lparr> nppcDrvLib := Some lib \<rparr>)))"
  by (simp add: static_nppcDrvLib_def split: option.splits prod.splits sum.splits)

lemma static_nppiccDrvLib_cases:
  "static_nppiccDrvLib cv env s =
    (case nppiccDrvLib s of
       Some lib \<Rightarrow> (Inr lib, s)
     | None \<Rightarrow>
        (case fst (loadNppiccLibrary cv env s) of
           Inl e \<Rightarrow> (Inl e, snd (loadNppiccLibrary cv env s))
         | Inr lib \<Rightarrow> (Inr lib, (snd (loadNppiccLibrary cv env s))\<lparr> nppiccDrvLib := Some lib \<rparr>)))"
  by (simp add: static_nppiccDrvLib_def split: option.splits prod.splits sum.splits)

lemma static_nppcDrvLib_symbol_map:
  "symbol_map (snd (static_nppcDrvLib cv env s)) = symbol_map s"
  by (simp add: static_nppcDrvLib_cases loadNppcLibrary_frame split: option.splits sum.splits)

lemma static_nppiccDrvLib_symbol_map:
  "symbol_map (snd (static_nppiccDrvLib cv env s)) = symbol_map s"
  by (simp add: static_nppiccDrvLib_cases loadNppiccLibrary_frame split: option.splits sum.splits)

subsection \<open>Resolution leaves the cache alone\<close>

lemma NppLoadSymbol_cases:
  "NppLoadSymbol cv env name s =
    (case fst (static_nppcDrvLib cv env s) of
       Inl e \<Rightarrow> (Inl e, snd (static_nppcDrvLib cv env s))
     | Inr c \<Rightarrow>
        (case fst (static_nppiccDrvLib cv env (snd (static_nppcDrvLib cv env s))) of
           Inl e \<Rightarrow> (Inl e, snd (static_nppiccDrvLib cv env (snd (static_nppcDrvLib cv env s))))
         | Inr i \<Rightarrow>
            (let s2 = snd (static_nppiccDrvLib cv env (snd (static_nppcDrvLib cv env s)));
                 ret = (if i \<noteq> 0 then dlsym env i name else 0);
                 s3 = (if i \<noteq> 0 then s2\<lparr> dl_calls := dl_calls s2 @ [Dlsym i name] \<rparr> else s2)
             in if ret = 0 then
                  (if c \<noteq> 0
                   then (Inr (dlsym env c name), s3\<lparr> dl_calls := dl_calls s3 @ [Dlsym c name] \<rparr>)
                   else (Inr 0, s3))
                else (Inr ret, s3))))"
  by (simp add: NppLoadSymbol_def Let_def split: prod.splits sum.splits)

lemma NppLoadSymbol_symbol_map:
  "symbol_map (snd (NppLoadSymbol cv env name s)) = symbol_map s"
  by (simp add: NppLoadSymbol_cases Let_def static_nppcDrvLib_symbol_map
        static_nppiccDrvLib_symbol_map split: sum.splits)

subsection \<open>The availability cache\<close>

lemma nppIsSymbolAvailable_cached:
  "symbol_map s name = Some p \<Longrightarrow> nppIsSymbolAvailable cv env name s = (Inr (p \<noteq> 0), s)"
  by (simp add: nppIsSymbolAvailable_def)

lemma nppIsSymbolAvailable_uncached:
  "symbol_map s name = None \<Longrightarrow>
   nppIsSymbolAvailable cv env name s =
     (case fst (NppLoadSymbol cv env name s) of
        Inl e \<Rightarrow> (Inl e, snd (NppLoadSymbol cv env name s))
      | Inr ptr \<Rightarrow>
         (Inr (ptr \<noteq> 0),
          (snd (NppLoadSymbol cv env name s))
            \<lparr> symbol_map := (symbol_map (snd (NppLoadSymbol cv env name s)))(name \<mapsto> ptr) \<rparr>))"
  by (simp add: nppIsSymbolAvailable_def split: prod.splits sum.splits)

lemma nppIsSymbolAvailable_keeps_entry:
  assumes "symbol_map s name = Some p"
  shows "symbol_map (snd (nppIsSymbolAvailable cv env name' s)) name = Some p"
proof (cases "symbol_map s name'")
  case (Some q)
  with assms show ?thesis
    by (simp add: nppIsSymbolAvailable_cached)
next
  case None
  with assms have "name' \<noteq> name"
    by auto
  with None assms show ?thesis
    by (simp add: nppIsSymbolAvailable_uncached NppLoadSymbol_symbol_map split: sum.splits)
qed

lemma nppIsSymbolAvailable_calls_keep_entry:
  "symbol_map s name = Some p \<Longrightarrow>
   symbol_map (nppIsSymbolAvailable_calls cv others s) name = Some p"
proof (induction others arbitrary: s)
  case Nil
  then show ?case by simp
next
  case (Cons call others)
  obtain env name' where call: "call = (env, name')"
    by (cases call)
  from Cons.prems have "symbol_map (snd (nppIsSymbolAvailable cv env name' s)) name = Some p"
    by (rule nppIsSymbolAvailable_keeps_entry)
  then show ?case
    using Cons.IH call by simp
qed

lemma nppIsSymbolAvailable_returned:
  assumes "nppIsSymbolAvailable cv env name s = (Inr b, s')"
  shows "\<exists>p. symbol_map s' name = Some p \<and> b = (p \<noteq> 0)"
proof (cases "symbol_map s name")
  case (Some p)
  with assms show ?thesis
    by (auto simp: nppIsSymbolAvailable_cached)
next
  case None
  with assms show ?thesis
    by (auto simp: nppIsSymbolAvailable_uncached split: sum.splits)
qed

text \<open>
  C4. Once a call of \<open>nppIsSymbolAvailable\<close> for a name has returned a boolean, then
  after any further calls of it (for this or other names, under any loader environments,
  returning or throwing), a call for the same name returns the same boolean and leaves
  the whole state as it found it: in particular it adds no \<open>dlopen\<close> or \<open>dlsym\<close>
  call to the record.
\<close>

theorem nppIsSymbolAvailable_cached_answer:
  assumes "nppIsSymbolAvailable cv env name s0 = (Inr b, s1)"
  shows "nppIsSymbolAvailable cv env' name (nppIsSymbolAvailable_calls cv others s1) =
           (Inr b, nppIsSymbolAvailable_calls cv others s1)
    \<and> dl_calls (snd (nppIsSymbolAvailable cv env' name (nppIsSymbolAvailable_calls cv others s1))) =
        dl_calls (nppIsSymbolAvailable_calls cv others s1)"
proof -
  from nppIsSymbolAvailable_returned [OF assms]
  obtain p where p: "symbol_map s1 name = Some p" and b: "b = (p \<noteq> 0)"
    by blast
  from p have "symbol_map (nppIsSymbolAvailable_calls cv others s1) name = Some p"
    by (rule nppIsSymbolAvailable_calls_keep_entry)
  then show ?thesis
    by (simp add: nppIsSymbolAvailable_cached b)
qed

theorem nppIsSymbolAvailable_cached_answer_witness:
  "fst (nppIsSymbolAvailable 11020
         (mock_env [(''libnppc.so.11'', 100), (''libnppicc.so'', 200)] [((200, ''nppiFoo''), 6000)])
         ''nppiFoo'' initial_state) = Inr True
   \<and> nppIsSymbolAvailable 11020 (mock_env [] []) ''nppiFoo''
        (nppIsSymbolAvailable_calls 11020 [(mock_env [] [], ''nppiBar'')]
           (snd (nppIsSymbolAvailable 11020
              (mock_env [(''libnppc.so.11'', 100), (''libnppicc.so'', 200)]
                 [((200, ''nppiFoo''), 6000)])
              ''nppiFoo'' initial_state))) =
      (Inr True,
       nppIsSymbolAvailable_calls 11020 [(mock_env [] [], ''nppiBar'')]
           (snd (nppIsSymbolAvailable 11020
              (mock_env [(''libnppc.so.11'', 100), (''libnppicc.so'', 200)]
                 [((200, ''nppiFoo''), 6000)])
              ''nppiFoo'' initial_state)))"
proof -
  let ?env = "mock_env [(''libnppc.so.11'', 100), (''libnppicc.so'', 200)] [((200, ''nppiFoo''), 6000)]"
  have f: "fst (nppIsSymbolAvailable 11020 ?env ''nppiFoo'' initial_state) = Inr True"
    by (simp add: nppIsSymbolAvailable_def NppLoadSymbol_def static_nppcDrvLib_def
          static_nppiccDrvLib_def loadNppcLibrary_def loadNppiccLibrary_def Let_def
          initial_state_def mock_env_def NppcLibNameCuVer_def NppiccLibNameCuVer_def
          NppcLibName_def NppiccLibName_def)
  then have first: "nppIsSymbolAvailable 11020 ?env ''nppiFoo'' initial_state =
      (Inr True, snd (nppIsSymbolAvailable 11020 ?env ''nppiFoo'' initial_state))"
    by (simp add: prod_eq_iff)
  from nppIsSymbolAvailable_cached_answer [OF first, of "mock_env [] []" "[(mock_env [] [], ''nppiBar'')]"] f
  show ?thesis
    by simp
qed

subsection \<open>Lookup order\<close>

lemma static_nppcDrvLib_loaded:
  assumes "c = (case nppcDrvLib s of
                  Some l \<Rightarrow> l
                | None \<Rightarrow> if dlopen env (NppcLibNameCuVer cv) \<noteq> 0
                          then dlopen env (NppcLibNameCuVer cv) else dlopen env NppcLibName)"
    and "c \<noteq> 0"
  shows "\<exists>opens. static_nppcDrvLib cv env s =
           (Inr c, s\<lparr> nppcDrvLib := Some c, dl_calls := dl_calls s @ opens \<rparr>)
         \<and> filter is_dlsym opens = []"
proof (cases "nppcDrvLib s")
  case (Some l)
  with assms have "static_nppcDrvLib cv env s =
      (Inr c, s\<lparr> nppcDrvLib := Some c, dl_calls := dl_calls s @ [] \<rparr>)"
    by (simp add: static_nppcDrvLib_cases)
  then show ?thesis
    by (intro exI [of _ "[]"]) simp
next
  case None
  show ?thesis
  proof (cases "dlopen env (NppcLibNameCuVer cv) \<noteq> 0")
    case True
    with None assms have "static_nppcDrvLib cv env s =
        (Inr c, s\<lparr> nppcDrvLib := Some c,
                   dl_calls := dl_calls s @ [Dlopen (NppcLibNameCuVer cv)] \<rparr>)"
      by (simp add: static_nppcDrvLib_cases loadNppcLibrary_eq)
    then show ?thesis
      by (intro exI [of _ "[Dlopen (NppcLibNameCuVer cv)]"]) simp
  next
    case False
    with None assms have "static_nppcDrvLib cv env s =
        (Inr c, s\<lparr> nppcDrvLib := Some c,
                   dl_calls := dl_calls s @ [Dlopen (NppcLibNameCuVer cv), Dlopen NppcLibName] \<rparr>)"
      by (simp add: static_nppcDrvLib_cases loadNppcLibrary_eq)
    then show ?thesis
      by (intro exI [of _ "[Dlopen (NppcLibNameCuVer cv), Dlopen NppcLibName]"]) simp
  qed
qed

lemma static_nppiccDrvLib_loaded:
  assumes "i = (case nppiccDrvLib s of
                  Some l \<Rightarrow> l
                | None \<Rightarrow> if dlopen env (NppiccLibNameCuVer cv) \<noteq> 0
                          then dlopen env (NppiccLibNameCuVer cv) else dlopen env NppiccLibName)"
    and "i \<noteq> 0"
  shows "\<exists>opens. static_nppiccDrvLib cv env s =
           (Inr i, s\<lparr> nppiccDrvLib := Some i, dl_calls := dl_calls s @ opens \<rparr>)
         \<and> filter is_dlsym opens = []"
proof (cases "nppiccDrvLib s")
  case (Some l)
  with assms have "static_nppiccDrvLib cv env s =
      (Inr i, s\<lparr> nppiccDrvLib := Some i, dl_calls := dl_calls s @ [] \<rparr>)"
    by (simp add: static_nppiccDrvLib_cases)
  then show ?thesis
    by (intro exI [of _ "[]"]) simp
next
  case None
  show ?thesis
  proof (cases "dlopen env (NppiccLibNameCuVer cv) \<noteq> 0")
    case True
    with None assms have "static_nppiccDrvLib cv env s =
        (Inr i, s\<lparr> nppiccDrvLib := Some i,
                   dl_calls := dl_calls s @ [Dlopen (NppiccLibNameCuVer cv)] \<rparr>)"
      by (simp add: static_nppiccDrvLib_cases loadNppiccLibrary_eq)
    then show ?thesis
      by (intro exI [of _ "[Dlopen (NppiccLibNameCuVer cv)]"]) simp
  next
    case False
    with None assms have "static_nppiccDrvLib cv env s =
        (Inr i, s\<lparr> nppiccDrvLib := Some i,
                   dl_calls := dl_calls s @ [Dlopen (NppiccLibNameCuVer cv), Dlopen NppiccLibName] \<rparr>)"
      by (simp add: static_nppiccDrvLib_cases loadNppiccLibrary_eq)
    then show ?thesis
      by (intro exI [of _ "[Dlopen (NppiccLibNameCuVer cv), Dlopen NppiccLibName]"]) simp
  qed
qed

lemma NppLoadSymbol_loaded:
  assumes c: "c = (case nppcDrvLib s of
                  Some l \<Rightarrow> l
                | None \<Rightarrow> if dlopen env (NppcLibNameCuVer cv) \<noteq> 0
                          then dlopen env (NppcLibNameCuVer cv) else dlopen env NppcLibName)"
    and i: "i = (case nppiccDrvLib s of
                  Some l \<Rightarrow> l
                | None \<Rightarrow> if dlopen env (NppiccLibNameCuVer cv) \<noteq> 0
                          then dlopen env (NppiccLibNameCuVer cv) else dlopen env NppiccLibName)"
    and c0: "c \<noteq> 0" and i0: "i \<noteq> 0"
  shows "\<exists>opens. NppLoadSymbol cv env name s =
           (Inr (if dlsym env i name \<noteq> 0 then dlsym env i name else dlsym env c name),
            s\<lparr> nppcDrvLib := Some c, nppiccDrvLib := Some i,
               dl_calls := dl_calls s @ opens @
                 (if dlsym env i name \<noteq> 0 then [Dlsym i name]
                  else [Dlsym i name, Dlsym c name]) \<rparr>)
         \<and> filter is_dlsym opens = []"
proof -
  from static_nppcDrvLib_loaded [OF c c0]
  obtain o1 where s1: "static_nppcDrvLib cv env s =
      (Inr c, s\<lparr> nppcDrvLib := Some c, dl_calls := dl_calls s @ o1 \<rparr>)"
    and f1: "filter is_dlsym o1 = []"
    by blast
  let ?s1 = "s\<lparr> nppcDrvLib := Some c, dl_calls := dl_calls s @ o1 \<rparr>"
  have i': "i = (case nppiccDrvLib ?s1 of
                  Some l \<Rightarrow> l
                | None \<Rightarrow> if dlopen env (NppiccLibNameCuVer cv) \<noteq> 0
                          then dlopen env (NppiccLibNameCuVer cv) else dlopen env NppiccLibName)"
    using i by simp
  from static_nppiccDrvLib_loaded [OF i' i0]
  obtain o2 where s2: "static_nppiccDrvLib cv env ?s1 =
      (Inr i, ?s1\<lparr> nppiccDrvLib := Some i, dl_calls := dl_calls ?s1 @ o2 \<rparr>)"
    and f2: "filter is_dlsym o2 = []"
    by blast
  have "NppLoadSymbol cv env name s =
           (Inr (if dlsym env i name \<noteq> 0 then dlsym env i name else dlsym env c name),
            s\<lparr> nppcDrvLib := Some c, nppiccDrvLib := Some i,
               dl_calls := dl_calls s @ (o1 @ o2) @
                 (if dlsym env i name \<noteq> 0 then [Dlsym i name]
                  else [Dlsym i name, Dlsym c name]) \<rparr>)"
    by (simp add: NppLoadSymbol_cases s1 s2 c0 i0 Let_def)
  moreover have "filter is_dlsym (o1 @ o2) = []"
    using f1 f2 by simp
  ultimately show ?thesis
    by blast
qed

text \<open>
  C6. With both libraries loaded, or loadable on this first use, \<open>NppLoadSymbol\<close>
  returns normally; it asks \<open>dlsym\<close> for the name in libnppicc first and in libnppc
  only if that answer was null, in this order and with no other \<open>dlsym\<close> call. Its
  result is the first non-null answer, and null exactly when both answers are null.
\<close>

theorem NppLoadSymbol_nppicc_then_nppc:
  assumes c: "c = (case nppcDrvLib s of
                  Some l \<Rightarrow> l
                | None \<Rightarrow> if dlopen env (NppcLibNameCuVer cv) \<noteq> 0
                          then dlopen env (NppcLibNameCuVer cv) else dlopen env NppcLibName)"
    and i: "i = (case nppiccDrvLib s of
                  Some l \<Rightarrow> l
                | None \<Rightarrow> if dlopen env (NppiccLibNameCuVer cv) \<noteq> 0
                          then dlopen env (NppiccLibNameCuVer cv) else dlopen env NppiccLibName)"
    and c0: "c \<noteq> 0" and i0: "i \<noteq> 0"
  shows "fst (NppLoadSymbol cv env name s) =
           Inr (if dlsym env i name \<noteq> 0 then dlsym env i name else dlsym env c name)
    \<and> (\<exists>opens. dl_calls (snd (NppLoadSymbol cv env name s)) =
           dl_calls s @ opens @
             (if dlsym env i name \<noteq> 0 then [Dlsym i name] else [Dlsym i name, Dlsym c name])
         \<and> filter is_dlsym opens = [])
    \<and> nppcDrvLib (snd (NppLoadSymbol cv env name s)) = Some c
    \<and> nppiccDrvLib (snd (NppLoadSymbol cv env name s)) = Some i
    \<and> ((fst (NppLoadSymbol cv env name s) = Inr 0) =
         (dlsym env i name = 0 \<and> dlsym env c name = 0))"
proof -
  from NppLoadSymbol_loaded [OF c i c0 i0, of name]
  obtain opens where l: "NppLoadSymbol cv env name s =
           (Inr (if dlsym env i name \<noteq> 0 then dlsym env i name else dlsym env c name),
            s\<lparr> nppcDrvLib := Some c, nppiccDrvLib := Some i,
               dl_calls := dl_calls s @ opens @
                 (if dlsym env i name \<noteq> 0 then [Dlsym i name]
                  else [Dlsym i name, Dlsym c name]) \<rparr>)"
    and f: "filter is_dlsym opens = []"
    by blast
  have "\<exists>opens. dl_calls (snd (NppLoadSymbol cv env name s)) =
           dl_calls s @ opens @
             (if dlsym env i name \<noteq> 0 then [Dlsym i name] else [Dlsym i name, Dlsym c name])
         \<and> filter is_dlsym opens = []"
    using f by (intro exI [of _ opens]) (simp add: l)
  then show ?thesis
    by (simp add: l)
qed

theorem NppLoadSymbol_nppicc_then_nppc_witness:
  "fst (NppLoadSymbol 11020
         (mock_env [(''libnppc.so.11'', 100), (''libnppicc.so'', 200)]
                   [((100, ''nppGetLibVersion''), 5000), ((200, ''nppiFoo''), 6000),
                    ((100, ''nppiFoo''), 7000)])
         ''nppiFoo'' initial_state) = Inr 6000
   \<and> fst (NppLoadSymbol 11020
         (mock_env [(''libnppc.so.11'', 100), (''libnppicc.so'', 200)]
                   [((100, ''nppGetLibVersion''), 5000), ((200, ''nppiFoo''), 6000),
                    ((100, ''nppiFoo''), 7000)])
         ''nppGetLibVersion'' initial_state) = Inr 5000"
proof -
  let ?env = "mock_env [(''libnppc.so.11'', 100), (''libnppicc.so'', 200)]
                   [((100, ''nppGetLibVersion''), 5000), ((200, ''nppiFoo''), 6000),
                    ((100, ''nppiFoo''), 7000)]"
  have c: "100 = (case nppcDrvLib initial_state of
                  Some l \<Rightarrow> l
                | None \<Rightarrow> if dlopen ?env (NppcLibNameCuVer 11020) \<noteq> 0
                          then dlopen ?env (NppcLibNameCuVer 11020) else dlopen ?env NppcLibName)"
    by (simp add: initial_state_def mock_env_def NppcLibNameCuVer_def)
  have i: "200 = (case nppiccDrvLib initial_state of
                  Some l \<Rightarrow> l
                | None \<Rightarrow> if dlopen ?env (NppiccLibNameCuVer 11020) \<noteq> 0
                          then dlopen ?env (NppiccLibNameCuVer 11020) else dlopen ?env NppiccLibName)"
    by (simp add: initial_state_def mock_env_def NppiccLibNameCuVer_def NppiccLibName_def)
  have c0: "(100::nat) \<noteq> 0" and i0: "(200::nat) \<noteq> 0"
    by simp_all
  from NppLoadSymbol_nppicc_then_nppc [OF c i c0 i0, of "''nppiFoo''"]
       NppLoadSymbol_nppicc_then_nppc [OF c i c0 i0, of "''nppGetLibVersion''"]
  show ?thesis
    by (simp add: mock_env_def)
qed

subsection \<open>A missing library and a missing symbol\<close>

lemma nppIsSymbolAvailable_first_use:
  assumes fresh: "nppcDrvLib s = None" "nppiccDrvLib s = None" "symbol_map s name = None"
    and c: "c = (if dlopen env (NppcLibNameCuVer cv) \<noteq> 0
                 then dlopen env (NppcLibNameCuVer cv) else dlopen env NppcLibName)"
    and i: "i = (if dlopen env (NppiccLibNameCuVer cv) \<noteq> 0
                 then dlopen env (NppiccLibNameCuVer cv) else dlopen env NppiccLibName)"
    and oc: "opens_c = (if dlopen env (NppcLibNameCuVer cv) \<noteq> 0
                        then [Dlopen (NppcLibNameCuVer cv)]
                        else [Dlopen (NppcLibNameCuVer cv), Dlopen NppcLibName])"
    and oi: "opens_i = (if dlopen env (NppiccLibNameCuVer cv) \<noteq> 0
                        then [Dlopen (NppiccLibNameCuVer cv)]
                        else [Dlopen (NppiccLibNameCuVer cv), Dlopen NppiccLibName])"
  shows "nppIsSymbolAvailable cv env name s =
    (if c = 0 then
       (Inl (runtime_error
          ''dlopen libnppc.so failed!. Please install CUDA toolkit or NPP python wheel.''),
        s\<lparr> dl_calls := dl_calls s @ opens_c \<rparr>)
     else if i = 0 then
       (Inl (runtime_error
          ''dlopen libnppicc.so failed!. Please install CUDA toolkit or NPP python wheel.''),
        s\<lparr> nppcDrvLib := Some c, dl_calls := dl_calls s @ opens_c @ opens_i \<rparr>)
     else if dlsym env i name \<noteq> 0 then
       (Inr True,
        s\<lparr> nppcDrvLib := Some c, nppiccDrvLib := Some i,
           symbol_map := (symbol_map s)(name \<mapsto> dlsym env i name),
           dl_calls := dl_calls s @ opens_c @ opens_i @ [Dlsym i name] \<rparr>)
     else
       (Inr (dlsym env c name \<noteq> 0),
        s\<lparr> nppcDrvLib := Some c, nppiccDrvLib := Some i,
           symbol_map := (symbol_map s)(name \<mapsto> dlsym env c name),
           dl_calls := dl_calls s @ opens_c @ opens_i @ [Dlsym i name, Dlsym c name] \<rparr>))"
  by (simp add: nppIsSymbolAvailable_uncached fresh NppLoadSymbol_cases
        static_nppcDrvLib_cases static_nppiccDrvLib_cases c i oc oi
        loadNppcLibrary_eq loadNppiccLibrary_eq NppcLibName_def NppiccLibName_def Let_def)

text \<open>
  C3. Each library is opened under its versioned file name first and under its
  unversioned name only if that open returned null; when both return null the load
  throws an error whose message names the library. On the first use of the resolver (no
  handle initialised, the name not in the cache) a failed load of libnppc, or of
  libnppicc after libnppc has loaded, leaves \<open>nppIsSymbolAvailable\<close> by that exception.
  When both libraries load and \<open>dlsym\<close> finds the name in neither, it returns \<open>false\<close>
  and throws nothing.
\<close>

theorem missing_library_throws_missing_symbol_is_false:
  assumes fresh: "nppcDrvLib s = None" "nppiccDrvLib s = None" "symbol_map s name = None"
    and c: "c = (if dlopen env (NppcLibNameCuVer cv) \<noteq> 0
                 then dlopen env (NppcLibNameCuVer cv) else dlopen env NppcLibName)"
    and i: "i = (if dlopen env (NppiccLibNameCuVer cv) \<noteq> 0
                 then dlopen env (NppiccLibNameCuVer cv) else dlopen env NppiccLibName)"
    and oc: "opens_c = (if dlopen env (NppcLibNameCuVer cv) \<noteq> 0
                        then [Dlopen (NppcLibNameCuVer cv)]
                        else [Dlopen (NppcLibNameCuVer cv), Dlopen NppcLibName])"
    and oi: "opens_i = (if dlopen env (NppiccLibNameCuVer cv) \<noteq> 0
                        then [Dlopen (NppiccLibNameCuVer cv)]
                        else [Dlopen (NppiccLibNameCuVer cv), Dlopen NppiccLibName])"
  shows "loadNppcLibrary cv env s =
      (if c \<noteq> 0 then Inr c
       else Inl (runtime_error
         (''dlopen '' @ NppcLibName @ '' failed!. Please install CUDA toolkit or NPP python wheel.'')),
       s\<lparr> dl_calls := dl_calls s @ opens_c \<rparr>)
    \<and> loadNppiccLibrary cv env s =
      (if i \<noteq> 0 then Inr i
       else Inl (runtime_error
         (''dlopen '' @ NppiccLibName @ '' failed!. Please install CUDA toolkit or NPP python wheel.'')),
       s\<lparr> dl_calls := dl_calls s @ opens_i \<rparr>)
    \<and> (c = 0 \<longrightarrow>
         nppIsSymbolAvailable cv env name s =
           (Inl (runtime_error
              (''dlopen '' @ NppcLibName @
               '' failed!. Please install CUDA toolkit or NPP python wheel.'')),
            s\<lparr> dl_calls := dl_calls s @ opens_c \<rparr>))
    \<and> (c \<noteq> 0 \<longrightarrow> i = 0 \<longrightarrow>
         nppIsSymbolAvailable cv env name s =
           (Inl (runtime_error
              (''dlopen '' @ NppiccLibName @
               '' failed!. Please install CUDA toolkit or NPP python wheel.'')),
            s\<lparr> nppcDrvLib := Some c, dl_calls := dl_calls s @ opens_c @ opens_i \<rparr>))
    \<and> (c \<noteq> 0 \<longrightarrow> i \<noteq> 0 \<longrightarrow> dlsym env i name = 0 \<longrightarrow> dlsym env c name = 0 \<longrightarrow>
         nppIsSymbolAvailable cv env name s =
           (Inr False,
            s\<lparr> nppcDrvLib := Some c, nppiccDrvLib := Some i,
               symbol_map := (symbol_map s)(name \<mapsto> 0),
               dl_calls := dl_calls s @ opens_c @ opens_i @ [Dlsym i name, Dlsym c name] \<rparr>))"
proof -
  note u = nppIsSymbolAvailable_first_use [OF fresh c i oc oi]
  have lc: "loadNppcLibrary cv env s =
      (if c \<noteq> 0 then Inr c
       else Inl (runtime_error
         (''dlopen '' @ NppcLibName @ '' failed!. Please install CUDA toolkit or NPP python wheel.'')),
       s\<lparr> dl_calls := dl_calls s @ opens_c \<rparr>)"
    by (simp add: loadNppcLibrary_eq c oc)
  have li: "loadNppiccLibrary cv env s =
      (if i \<noteq> 0 then Inr i
       else Inl (runtime_error
         (''dlopen '' @ NppiccLibName @ '' failed!. Please install CUDA toolkit or NPP python wheel.'')),
       s\<lparr> dl_calls := dl_calls s @ opens_i \<rparr>)"
    by (simp add: loadNppiccLibrary_eq i oi)
  have f1: "c = 0 \<longrightarrow>
         nppIsSymbolAvailable cv env name s =
           (Inl (runtime_error
              (''dlopen '' @ NppcLibName @
               '' failed!. Please install CUDA toolkit or NPP python wheel.'')),
            s\<lparr> dl_calls := dl_calls s @ opens_c \<rparr>)"
    by (simp add: u NppcLibName_def)
  have f2: "c \<noteq> 0 \<longrightarrow> i = 0 \<longrightarrow>
         nppIsSymbolAvailable cv env name s =
           (Inl (runtime_error
              (''dlopen '' @ NppiccLibName @
               '' failed!. Please install CUDA toolkit or NPP python wheel.'')),
            s\<lparr> nppcDrvLib := Some c, dl_calls := dl_calls s @ opens_c @ opens_i \<rparr>)"
    by (simp add: u NppiccLibName_def)
  have n: "c \<noteq> 0 \<longrightarrow> i \<noteq> 0 \<longrightarrow> dlsym env i name = 0 \<longrightarrow> dlsym env c name = 0 \<longrightarrow>
         nppIsSymbolAvailable cv env name s =
           (Inr False,
            s\<lparr> nppcDrvLib := Some c, nppiccDrvLib := Some i,
               symbol_map := (symbol_map s)(name \<mapsto> 0),
               dl_calls := dl_calls s @ opens_c @ opens_i @ [Dlsym i name, Dlsym c name] \<rparr>)"
    by (simp add: u)
  from lc li f1 f2 n show ?thesis
    by blast
qed

theorem missing_library_throws_missing_symbol_is_false_witness:
  "nppIsSymbolAvailable 11020 (mock_env [] []) ''nppiFoo'' initial_state =
     (Inl (runtime_error
        ''dlopen libnppc.so failed!. Please install CUDA toolkit or NPP python wheel.''),
      initial_state\<lparr> dl_calls := [Dlopen ''libnppc.so.11'', Dlopen ''libnppc.so''] \<rparr>)
   \<and> nppIsSymbolAvailable 11020 (mock_env [(''libnppc.so'', 100)] []) ''nppiFoo'' initial_state =
     (Inl (runtime_error
        ''dlopen libnppicc.so failed!. Please install CUDA toolkit or NPP python wheel.''),
      initial_state\<lparr> nppcDrvLib := Some 100,
        dl_calls := [Dlopen ''libnppc.so.11'', Dlopen ''libnppc.so'',
                     Dlopen ''libnppicc.so.11'', Dlopen ''libnppicc.so''] \<rparr>)
   \<and> nppIsSymbolAvailable 11020
       (mock_env [(''libnppc.so.11'', 100), (''libnppicc.so'', 200)] [((100, ''nppiBar''), 7000)])
       ''nppiFoo'' initial_state =
     (Inr False,
      initial_state\<lparr> nppcDrvLib := Some 100, nppiccDrvLib := Some 200,
        symbol_map := [''nppiFoo'' \<mapsto> 0],
        dl_calls := [Dlopen ''libnppc.so.11'', Dlopen ''libnppicc.so.11'', Dlopen ''libnppicc.so'',
                     Dlsym 200 ''nppiFoo'', Dlsym 100 ''nppiFoo''] \<rparr>)"
proof -
  have fresh: "nppcDrvLib initial_state = None" "nppiccDrvLib initial_state = None"
    "symbol_map initial_state ''nppiFoo'' = None"
    by (simp_all add: initial_state_def)
  let ?e1 = "mock_env [] []"
  let ?e2 = "mock_env [(''libnppc.so'', 100)] []"
  let ?e3 = "mock_env [(''libnppc.so.11'', 100), (''libnppicc.so'', 200)] [((100, ''nppiBar''), 7000)]"
  have a: "nppIsSymbolAvailable 11020 ?e1 ''nppiFoo'' initial_state =
     (Inl (runtime_error
        ''dlopen libnppc.so failed!. Please install CUDA toolkit or NPP python wheel.''),
      initial_state\<lparr> dl_calls := [Dlopen ''libnppc.so.11'', Dlopen ''libnppc.so''] \<rparr>)"
    using missing_library_throws_missing_symbol_is_false
      [OF fresh, of 0 ?e1 11020 0
         "[Dlopen ''libnppc.so.11'', Dlopen ''libnppc.so'']"
         "[Dlopen ''libnppicc.so.11'', Dlopen ''libnppicc.so'']"]
    by (simp add: mock_env_def NppcLibNameCuVer_def NppiccLibNameCuVer_def NppcLibName_def
          NppiccLibName_def initial_state_def)
  have b: "nppIsSymbolAvailable 11020 ?e2 ''nppiFoo'' initial_state =
     (Inl (runtime_error
        ''dlopen libnppicc.so failed!. Please install CUDA toolkit or NPP python wheel.''),
      initial_state\<lparr> nppcDrvLib := Some 100,
        dl_calls := [Dlopen ''libnppc.so.11'', Dlopen ''libnppc.so'',
                     Dlopen ''libnppicc.so.11'', Dlopen ''libnppicc.so''] \<rparr>)"
    using missing_library_throws_missing_symbol_is_false
      [OF fresh, of 100 ?e2 11020 0
         "[Dlopen ''libnppc.so.11'', Dlopen ''libnppc.so'']"
         "[Dlopen ''libnppicc.so.11'', Dlopen ''libnppicc.so'']"]
    by (simp add: mock_env_def NppcLibNameCuVer_def NppiccLibNameCuVer_def NppcLibName_def
          NppiccLibName_def initial_state_def)
  have c: "nppIsSymbolAvailable 11020 ?e3 ''nppiFoo'' initial_state =
     (Inr False,
      initial_state\<lparr> nppcDrvLib := Some 100, nppiccDrvLib := Some 200,
        symbol_map := [''nppiFoo'' \<mapsto> 0],
        dl_calls := [Dlopen ''libnppc.so.11'', Dlopen ''libnppicc.so.11'', Dlopen ''libnppicc.so'',
                     Dlsym 200 ''nppiFoo'', Dlsym 100 ''nppiFoo''] \<rparr>)"
    using missing_library_throws_missing_symbol_is_false
      [OF fresh, of 100 ?e3 11020 200
         "[Dlopen ''libnppc.so.11'']"
         "[Dlopen ''libnppicc.so.11'', Dlopen ''libnppicc.so'']"]
    by (simp add: mock_env_def NppcLibNameCuVer_def NppiccLibNameCuVer_def NppcLibName_def
          NppiccLibName_def initial_state_def)
  from a b c show ?thesis
    by blast
qed

end
